theory Spec2Isabelle
  imports Complex_Main
begin

section \<open>JSON values as the Python handlers see them\<close>

text \<open>
  Every handler reads its input with \<^verbatim>\<open>request.get_json()\<close> and
  \<^verbatim>\<open>data.get(...)\<close>, so a field holds whatever JSON value the caller sent: the code
  declares no types. A JSON object is the parsed Python dict, given by its items (keys
  distinct). Python floats are idealised as reals: rounding, overflow and the non-finite
  values NaN and Infinity are outside the model.
\<close>

datatype jvalue =
    JNull
  | JBool bool
  | JInt int
  | JFloat real
  | JStr string
  | JArr "jvalue list"
  | JObj "(string \<times> jvalue) list"

datatype py_error = TypeError | AttributeError

text \<open>Python truthiness, as tested by \<^verbatim>\<open>not x\<close> and \<^verbatim>\<open>all([...])\<close>.\<close>

fun truthy :: "jvalue \<Rightarrow> bool" where
  "truthy JNull = False"
| "truthy (JBool b) = b"
| "truthy (JInt i) = (i \<noteq> 0)"
| "truthy (JFloat x) = (x \<noteq> 0)"
| "truthy (JStr s) = (s \<noteq> [])"
| "truthy (JArr xs) = (xs \<noteq> [])"
| "truthy (JObj kvs) = (kvs \<noteq> [])"

text \<open>\<^verbatim>\<open>data.get(k)\<close> on a dict: the value, or None when the key is missing.\<close>

definition dict_get :: "(string \<times> jvalue) list \<Rightarrow> string \<Rightarrow> jvalue" where
  "dict_get data k = (case map_of data k of Some v \<Rightarrow> v | None \<Rightarrow> JNull)"

text \<open>
  Numbers in arithmetic and comparisons: \<^verbatim>\<open>bool\<close> is a subclass of \<^verbatim>\<open>int\<close>
  (True is 1, False is 0); every other kind of value raises TypeError against a number.
\<close>

fun num_of :: "jvalue \<Rightarrow> real option" where
  "num_of (JBool b) = Some (if b then 1 else 0)"
| "num_of (JInt i) = Some (of_int i)"
| "num_of (JFloat x) = Some x"
| "num_of _ = None"

definition py_lt :: "jvalue \<Rightarrow> real \<Rightarrow> py_error + bool" where
  "py_lt v c = (case num_of v of Some x \<Rightarrow> Inr (x < c) | None \<Rightarrow> Inl TypeError)"

definition py_gt :: "jvalue \<Rightarrow> real \<Rightarrow> py_error + bool" where
  "py_gt v c = (case num_of v of Some x \<Rightarrow> Inr (x > c) | None \<Rightarrow> Inl TypeError)"

text \<open>\<^verbatim>\<open>price - cost\<close> with a float cost, and \<^verbatim>\<open>x * quantity\<close> with a float x.\<close>

definition py_sub :: "jvalue \<Rightarrow> real \<Rightarrow> py_error + real" where
  "py_sub v c = (case num_of v of Some x \<Rightarrow> Inr (x - c) | None \<Rightarrow> Inl TypeError)"

definition py_mul :: "real \<Rightarrow> jvalue \<Rightarrow> py_error + real" where
  "py_mul x v = (case num_of v of Some y \<Rightarrow> Inr (x * y) | None \<Rightarrow> Inl TypeError)"

text \<open>
  Keys of a Python dict. Equal numbers are one key whatever their type
  (\<^verbatim>\<open>1 == 1.0 == True\<close>, with equal hashes); a string never equals a number; lists and
  dicts are unhashable and raise TypeError when used as a key.
\<close>

datatype dkey = KNone | KStr string | KNum real

fun key_of :: "jvalue \<Rightarrow> py_error + dkey" where
  "key_of JNull = Inr KNone"
| "key_of (JBool b) = Inr (KNum (if b then 1 else 0))"
| "key_of (JInt i) = Inr (KNum (of_int i))"
| "key_of (JFloat x) = Inr (KNum x)"
| "key_of (JStr s) = Inr (KStr s)"
| "key_of (JArr xs) = Inl TypeError"
| "key_of (JObj kvs) = Inl TypeError"

type_synonym 'v pydict = "dkey \<rightharpoonup> 'v"

text \<open>\<^verbatim>\<open>table.get(k, default)\<close> on a table with string keys.\<close>

definition table_get :: "(string \<times> real) list \<Rightarrow> jvalue \<Rightarrow> real \<Rightarrow> py_error + real" where
  "table_get table k d =
     (case key_of k of
        Inl e \<Rightarrow> Inl e
      | Inr (KStr s) \<Rightarrow> Inr (case map_of table s of Some v \<Rightarrow> v | None \<Rightarrow> d)
      | Inr _ \<Rightarrow> Inr d)"

section \<open>Requests, responses and the environment of one request\<close>

text \<open>
  A request as a handler reads it: the X-Trace-Id header, if the caller sent one, and the
  value \<^verbatim>\<open>request.get_json()\<close> returns.
\<close>

record request =
  trace_header :: "string option"
  json :: jvalue

record response =
  body :: jvalue
  status :: nat

datatype level = INFO | WARNING | ERROR

type_synonym log_event = "level \<times> string \<times> string"

text \<open>One outbound \<^verbatim>\<open>requests.post(url, json=..., headers={'X-Trace-Id': ...})\<close>.\<close>

record outbound =
  url :: string
  payload :: jvalue
  x_trace_id :: string

text \<open>What \<^verbatim>\<open>requests.post\<close> does: it raises, or returns a response with a status.\<close>

datatype call_result = Raised | Returned nat

text \<open>
  Everything a handler takes from outside during one request: the token of
  \<^verbatim>\<open>uuid.uuid4()\<close>, the clock, the draws of \<^verbatim>\<open>random.random()\<close> (each in
  \<open>[0, 1)\<close>) and the outcome of the downstream call. \<open>fail_draw\<close> is the draw that
  decides the simulated failure of the service (the timeout in PricingService),
  \<open>latency_draw\<close> and \<open>noise_draw\<close> are the draws inside the two calls of
  \<^verbatim>\<open>random.uniform\<close> in PricingService.
\<close>

record env =
  fresh_uuid :: string
  now :: string
  fail_draw :: real
  latency_draw :: real
  noise_draw :: real
  downstream :: call_result

text \<open>
  The result of a handler: the response (or the exception that escapes the handler, which
  Flask turns into a 500), the service's store afterwards, the downstream calls made and
  the log events.
\<close>

record 's result =
  outcome :: "py_error + response"
  store :: 's
  calls :: "outbound list"
  logs :: "log_event list"

definition reply :: "'s \<Rightarrow> outbound list \<Rightarrow> log_event list \<Rightarrow> jvalue \<Rightarrow> nat \<Rightarrow> 's result" where
  "reply st cs lg b code =
     \<lparr>outcome = Inr \<lparr>body = b, status = code\<rparr>, store = st, calls = cs, logs = lg\<rparr>"

definition raise :: "'s \<Rightarrow> log_event list \<Rightarrow> py_error \<Rightarrow> 's result" where
  "raise st lg e = \<lparr>outcome = Inl e, store = st, calls = [], logs = lg\<rparr>"

text \<open>\<^verbatim>\<open>request.headers.get('X-Trace-Id', str(uuid.uuid4()))\<close>\<close>

definition trace_of :: "env \<Rightarrow> request \<Rightarrow> string" where
  "trace_of e r = (case trace_header r of Some t \<Rightarrow> t | None \<Rightarrow> fresh_uuid e)"

text \<open>\<^verbatim>\<open>random.uniform(a, b)\<close> is \<^verbatim>\<open>a + (b - a) * random.random()\<close>.\<close>

definition uniform :: "real \<Rightarrow> real \<Rightarrow> real \<Rightarrow> real" where
  "uniform a b u = a + (b - a) * u"

text \<open>
  The \<^verbatim>\<open>try: requests.post(...) ... except Exception\<close> block that ends three of the
  handlers: the call is attempted, and its outcome only chooses the log event.
\<close>

definition call_downstream :: "env \<Rightarrow> string \<Rightarrow> string \<Rightarrow> string \<Rightarrow> log_event" where
  "call_downstream e name error_message trace_id =
     (case downstream e of
        Raised \<Rightarrow> (ERROR, error_message, trace_id)
      | Returned code \<Rightarrow>
          if code = 200 then (INFO, name @ '' service called successfully'', trace_id)
          else (WARNING, name @ '' service call failed'', trace_id))"

section \<open>RiskService\<close>

definition assess_risk :: "jvalue \<Rightarrow> jvalue \<Rightarrow> py_error + string" where
  "assess_risk pnl_value quantity =
     (case py_lt pnl_value 0 of
        Inl e \<Rightarrow> Inl e
      | Inr neg \<Rightarrow>
         (case (if neg then py_gt quantity 50 else Inr False) of
            Inl e \<Rightarrow> Inl e
          | Inr high \<Rightarrow>
              (if high then Inr ''HIGH''
               else (case py_lt pnl_value (- 100) of
                       Inl e \<Rightarrow> Inl e
                     | Inr medium \<Rightarrow> (if medium then Inr ''MEDIUM'' else Inr ''LOW'')))))"

definition assess_trade_risk :: "env \<Rightarrow> request \<Rightarrow> jvalue pydict \<Rightarrow> jvalue pydict result" where
  "assess_trade_risk e r risks =
     (let trace_id = trace_of e r;
          lg = [(INFO, ''Received risk assessment request'', trace_id)]
      in if \<not> truthy (json r) then
           reply risks [] (lg @ [(ERROR, ''Invalid JSON payload'', trace_id)])
             (JObj [(''error'', JStr ''Invalid JSON'')]) 400
         else
          (case json r of
             JObj data \<Rightarrow>
              (let trade_id = dict_get data ''trade_id'';
                   pnl_value = dict_get data ''pnl_value'';
                   quantity = dict_get data ''quantity''
               in if \<not> (truthy trade_id \<and> pnl_value \<noteq> JNull \<and> quantity \<noteq> JNull) then
                    reply risks [] (lg @ [(ERROR, ''Missing required fields'', trace_id)])
                      (JObj [(''error'', JStr ''Missing required fields'')]) 400
                  else
                   (case assess_risk pnl_value quantity of
                      Inl err \<Rightarrow> raise risks lg err
                    | Inr risk_level \<Rightarrow>
                       (if fail_draw e < 0.03 then
                          reply risks []
                            (lg @ [(ERROR, ''Risk assessment failed due to external data unavailability'', trace_id)])
                            (JObj [(''error'', JStr ''External data unavailability'')]) 503
                        else
                         (case key_of trade_id of
                            Inl err \<Rightarrow> raise risks lg err
                          | Inr k \<Rightarrow>
                              reply
                                (risks(k \<mapsto> JObj [(''risk_level'', JStr risk_level),
                                                  (''pnl_value'', pnl_value),
                                                  (''quantity'', quantity)]))
                                []
                                (lg @ [(INFO, ''Risk assessed successfully'', trace_id)])
                                (JObj [(''trade_id'', trade_id), (''risk_level'', JStr risk_level)])
                                200))))
           | _ \<Rightarrow> raise risks lg AttributeError))"

definition get_risk :: "env \<Rightarrow> request \<Rightarrow> string \<Rightarrow> jvalue pydict \<Rightarrow> jvalue pydict result" where
  "get_risk e r trade_id risks =
     (let trace_id = trace_of e r;
          lg = [(INFO, ''Fetching risk assessment'', trace_id)];
          not_found = reply risks [] (lg @ [(WARNING, ''Risk assessment not found'', trace_id)])
                        (JObj [(''error'', JStr ''Risk assessment not found'')]) 404
      in case risks (KStr trade_id) of
           None \<Rightarrow> not_found
         | Some risk \<Rightarrow> (if \<not> truthy risk then not_found else reply risks [] lg risk 200))"

section \<open>PnLService\<close>

definition base_costs :: "(string \<times> real) list" where
  "base_costs = [(''AAPL'', 140), (''GOOGL'', 2700), (''MSFT'', 280)]"

definition compute_pnl :: "env \<Rightarrow> request \<Rightarrow> jvalue pydict \<Rightarrow> jvalue pydict result" where
  "compute_pnl e r pnls =
     (let trace_id = trace_of e r;
          lg = [(INFO, ''Received P&L computation request'', trace_id)]
      in if \<not> truthy (json r) then
           reply pnls [] (lg @ [(ERROR, ''Invalid JSON payload'', trace_id)])
             (JObj [(''error'', JStr ''Invalid JSON'')]) 400
         else
          (case json r of
             JObj data \<Rightarrow>
              (let trade_id = dict_get data ''trade_id'';
                   symbol = dict_get data ''symbol'';
                   price = dict_get data ''price'';
                   quantity = dict_get data ''quantity''
               in if \<not> (truthy trade_id \<and> truthy symbol \<and> truthy price \<and> truthy quantity) then
                    reply pnls [] (lg @ [(ERROR, ''Missing required fields'', trace_id)])
                      (JObj [(''error'', JStr ''Missing required fields'')]) 400
                  else
                   (case table_get base_costs symbol 90 of
                      Inl err \<Rightarrow> raise pnls lg err
                    | Inr cost \<Rightarrow>
                       (case py_sub price cost of
                          Inl err \<Rightarrow> raise pnls lg err
                        | Inr diff \<Rightarrow>
                           (case py_mul diff quantity of
                              Inl err \<Rightarrow> raise pnls lg err
                            | Inr pnl_value \<Rightarrow>
                               (if fail_draw e < 0.05 then
                                  reply pnls []
                                    (lg @ [(ERROR, ''P&L computation failed due to data inconsistency'', trace_id)])
                                    (JObj [(''error'', JStr ''Data inconsistency'')]) 500
                                else
                                 (case key_of trade_id of
                                    Inl err \<Rightarrow> raise pnls lg err
                                  | Inr k \<Rightarrow>
                                      reply
                                        (pnls(k \<mapsto> JObj [(''pnl_value'', JFloat pnl_value),
                                                         (''symbol'', symbol),
                                                         (''price'', price),
                                                         (''quantity'', quantity),
                                                         (''cost'', JFloat cost)]))
                                        [\<lparr>url = ''http://localhost:5003/risk'',
                                          payload = JObj [(''trade_id'', trade_id),
                                                          (''pnl_value'', JFloat pnl_value),
                                                          (''quantity'', quantity)],
                                          x_trace_id = trace_id\<rparr>]
                                        (lg @ [(INFO, ''P&L computed successfully'', trace_id),
                                               call_downstream e ''Risk'' ''Error calling Risk service'' trace_id])
                                        (JObj [(''trade_id'', trade_id), (''pnl_value'', JFloat pnl_value)])
                                        200))))))
           | _ \<Rightarrow> raise pnls lg AttributeError))"


section \<open>PricingService\<close>

definition base_prices :: "(string \<times> real) list" where
  "base_prices = [(''AAPL'', 150), (''GOOGL'', 2800), (''MSFT'', 300)]"

text \<open>
  \<^verbatim>\<open>compute_price\<close> first sleeps for \<^verbatim>\<open>random.uniform(0.1, 0.5)\<close> seconds (the draw
  \<open>latency_draw\<close>); the sleep changes neither the value nor any state.
\<close>

definition compute_price :: "env \<Rightarrow> jvalue \<Rightarrow> py_error + real" where
  "compute_price e symbol =
     (case table_get base_prices symbol 100 of
        Inl err \<Rightarrow> Inl err
      | Inr base \<Rightarrow> Inr (base + uniform (- 5) 5 (noise_draw e)))"

definition compute_trade_price :: "env \<Rightarrow> request \<Rightarrow> unit result" where
  "compute_trade_price e r =
     (let trace_id = trace_of e r;
          lg = [(INFO, ''Received price computation request'', trace_id)]
      in if \<not> truthy (json r) then
           reply () [] (lg @ [(ERROR, ''Invalid JSON payload'', trace_id)])
             (JObj [(''error'', JStr ''Invalid JSON'')]) 400
         else
          (case json r of
             JObj data \<Rightarrow>
              (let trade_id = dict_get data ''trade_id'';
                   symbol = dict_get data ''symbol'';
                   quantity = dict_get data ''quantity''
               in if \<not> truthy trade_id \<or> \<not> truthy symbol \<or> quantity = JNull then
                    reply () [] (lg @ [(ERROR, ''Missing trade_id, symbol, or quantity'', trace_id)])
                      (JObj [(''error'', JStr ''Missing trade_id, symbol, or quantity'')]) 400
                  else if fail_draw e < 0.1 then
                    reply () [] (lg @ [(ERROR, ''Price computation timed out'', trace_id)])
                      (JObj [(''error'', JStr ''Timeout'')]) 504
                  else
                   (case compute_price e symbol of
                      Inl err \<Rightarrow> raise () lg err
                    | Inr computed_price \<Rightarrow>
                        reply ()
                          [\<lparr>url = ''http://localhost:5002/pnl'',
                            payload = JObj [(''trade_id'', trade_id),
                                            (''symbol'', symbol),
                                            (''price'', JFloat computed_price),
                                            (''quantity'', quantity)],
                            x_trace_id = trace_id\<rparr>]
                          (lg @ [(INFO, ''Price computed successfully'', trace_id),
                                 call_downstream e ''P&L'' ''Error calling P&L service'' trace_id])
                          (JObj [(''trade_id'', trade_id), (''computed_price'', JFloat computed_price)])
                          200))
           | _ \<Rightarrow> raise () lg AttributeError))"

section \<open>TradeService\<close>

text \<open>
  Modelled from the spec: the class \<^verbatim>\<open>Trade\<close> of the module \<^verbatim>\<open>models\<close>, which is
  not among the sources. The spec's data model gives a Trade the six fields below; the
  constructor is taken to store its keyword arguments unchanged, and a Trade object to be
  truthy (a plain object, so \<^verbatim>\<open>not trade\<close> is False).
\<close>

record trade =
  trade_id :: jvalue
  symbol :: jvalue
  quantity :: jvalue
  price :: jvalue
  trade_type :: jvalue
  timestamp :: string

definition create_trade_object :: "env \<Rightarrow> jvalue \<Rightarrow> jvalue \<Rightarrow> jvalue \<Rightarrow> jvalue \<Rightarrow> jvalue \<Rightarrow> trade" where
  "create_trade_object e tid smb qty prc typ =
     \<lparr>trade_id = tid, symbol = smb, quantity = qty, price = prc, trade_type = typ,
      timestamp = now e\<rparr>"

definition create_trade :: "env \<Rightarrow> request \<Rightarrow> trade pydict \<Rightarrow> trade pydict result" where
  "create_trade e r trades =
     (let trace_id = trace_of e r;
          lg = [(INFO, ''Received trade creation request'', trace_id)]
      in if \<not> truthy (json r) then
           reply trades [] (lg @ [(ERROR, ''Invalid JSON payload'', trace_id)])
             (JObj [(''error'', JStr ''Invalid JSON'')]) 400
         else
          (case json r of
             JObj data \<Rightarrow>
              (let tid = dict_get data ''trade_id'';
                   smb = dict_get data ''symbol'';
                   qty = dict_get data ''quantity'';
                   prc = dict_get data ''price'';
                   typ = dict_get data ''trade_type''
               in if \<not> (truthy tid \<and> truthy smb \<and> truthy qty \<and> truthy prc \<and> truthy typ) then
                    reply trades [] (lg @ [(ERROR, ''Missing required fields'', trace_id)])
                      (JObj [(''error'', JStr ''Missing required fields'')]) 400
                  else
                   (case key_of tid of
                      Inl err \<Rightarrow> raise trades lg err
                    | Inr k \<Rightarrow>
                        reply
                          (trades(k \<mapsto> create_trade_object e tid smb qty prc typ))
                          [\<lparr>url = ''http://localhost:5001/prices'',
                            payload = JObj [(''trade_id'', tid), (''symbol'', smb), (''quantity'', qty)],
                            x_trace_id = trace_id\<rparr>]
                          (lg @ [(INFO, ''Trade created successfully'', trace_id),
                                 call_downstream e ''Pricing'' ''Error calling pricing service'' trace_id])
                          (JObj [(''message'', JStr ''Trade created''), (''trade_id'', tid)])
                          201))
           | _ \<Rightarrow> raise trades lg AttributeError))"

definition get_trade :: "env \<Rightarrow> request \<Rightarrow> string \<Rightarrow> trade pydict \<Rightarrow> trade pydict result" where
  "get_trade e r tid trades =
     (let trace_id = trace_of e r;
          lg = [(INFO, ''Fetching trade'', trace_id)]
      in case trades (KStr tid) of
           None \<Rightarrow>
             reply trades [] (lg @ [(WARNING, ''Trade not found'', trace_id)])
               (JObj [(''error'', JStr ''Trade not found'')]) 404
         | Some t \<Rightarrow>
             reply trades [] lg
               (JObj [(''trade_id'', trade_id t),
                      (''symbol'', symbol t),
                      (''quantity'', quantity t),
                      (''price'', price t),
                      (''trade_type'', trade_type t),
                      (''timestamp'', JStr (timestamp t))])
               200)"
section \<open>The rules in the specification's words\<close>

text \<open>
  The specification's risk rules, evaluated in order, first match wins:
  pnl_value < 0 and quantity > 50 gives HIGH, pnl_value < -100 gives MEDIUM, otherwise LOW.
  A comparison holds of a value when the value is a number for which it is true.
\<close>

definition number_below :: "jvalue \<Rightarrow> real \<Rightarrow> bool" where
  "number_below v c = (case num_of v of Some x \<Rightarrow> x < c | None \<Rightarrow> False)"

definition number_above :: "jvalue \<Rightarrow> real \<Rightarrow> bool" where
  "number_above v c = (case num_of v of Some x \<Rightarrow> c < x | None \<Rightarrow> False)"

definition spec_risk_level :: "jvalue \<Rightarrow> jvalue \<Rightarrow> string" where
  "spec_risk_level pnl qty =
     (if number_below pnl 0 \<and> number_above qty 50 then ''HIGH''
      else if number_below pnl (- 100) then ''MEDIUM''
      else ''LOW'')"


text \<open>
  A stored risk assessment is consistent when its risk_level is what \<^verbatim>\<open>assess_risk\<close>
  returns for the pnl_value and quantity stored beside it.
\<close>

definition risk_consistent :: "jvalue \<Rightarrow> bool" where
  "risk_consistent v =
     (case v of
        JObj entry \<Rightarrow>
          (case dict_get entry ''risk_level'' of
             JStr lvl \<Rightarrow>
               assess_risk (dict_get entry ''pnl_value'') (dict_get entry ''quantity'') = Inr lvl
           | _ \<Rightarrow> False)
      | _ \<Rightarrow> False)"

section \<open>Sequences of requests to one service\<close>

text \<open>
  A service starts with an empty store and handles one request after another; a request
  whose handler raises leaves the store as the handler left it.
\<close>

datatype http_op = POST env request | GET env request string

fun risk_step :: "jvalue pydict \<Rightarrow> http_op \<Rightarrow> jvalue pydict" where
  "risk_step risks (POST e r) = store (assess_trade_risk e r risks)"
| "risk_step risks (GET e r tid) = store (get_risk e r tid risks)"

fun trade_step :: "trade pydict \<Rightarrow> http_op \<Rightarrow> trade pydict" where
  "trade_step trades (POST e r) = store (create_trade e r trades)"
| "trade_step trades (GET e r tid) = store (get_trade e r tid trades)"

section \<open>Example inputs\<close>

definition env_ok :: env where
  "env_ok = \<lparr>fresh_uuid = ''generated-trace'', now = ''2024-01-01T00:00:00'',
             fail_draw = 1 / 2, latency_draw = 1 / 2, noise_draw = 1 / 2,
             downstream = Returned 200\<rparr>"

definition risk_request :: "jvalue \<Rightarrow> jvalue \<Rightarrow> jvalue \<Rightarrow> request" where
  "risk_request tid pnl qty =
     \<lparr>trace_header = None,
      json = JObj [(''trade_id'', tid), (''pnl_value'', pnl), (''quantity'', qty)]\<rparr>"

definition pnl_request :: "jvalue \<Rightarrow> jvalue \<Rightarrow> jvalue \<Rightarrow> jvalue \<Rightarrow> request" where
  "pnl_request tid smb prc qty =
     \<lparr>trace_header = None,
      json = JObj [(''trade_id'', tid), (''symbol'', smb), (''price'', prc), (''quantity'', qty)]\<rparr>"

definition price_request :: "jvalue \<Rightarrow> jvalue \<Rightarrow> jvalue \<Rightarrow> request" where
  "price_request tid smb qty =
     \<lparr>trace_header = None,
      json = JObj [(''trade_id'', tid), (''symbol'', smb), (''quantity'', qty)]\<rparr>"

definition trade_request :: "jvalue \<Rightarrow> jvalue \<Rightarrow> jvalue \<Rightarrow> jvalue \<Rightarrow> jvalue \<Rightarrow> request" where
  "trade_request tid smb qty prc typ =
     \<lparr>trace_header = None,
      json = JObj [(''trade_id'', tid), (''symbol'', smb), (''quantity'', qty),
                   (''price'', prc), (''trade_type'', typ)]\<rparr>"

definition get_request :: request where
  "get_request = \<lparr>trace_header = None, json = JNull\<rparr>"
section \<open>RiskService: classification and the consistency of the store\<close>

text \<open>On numbers the specification's rules read as they are written.\<close>

lemma spec_risk_level_numbers:
  "num_of a = Some p \<Longrightarrow> num_of b = Some q \<Longrightarrow>
   spec_risk_level a b =
     (if p < 0 \<and> 50 < q then ''HIGH'' else if p < - 100 then ''MEDIUM'' else ''LOW'')"
  by (simp add: spec_risk_level_def number_below_def number_above_def)


text \<open>
  On numbers the classification never raises. It also returns LOW for a non-negative
  pnl_value beside a quantity of any kind, because \<^verbatim>\<open>and\<close> does not evaluate its
  second operand then; a negative pnl_value beside a non-numeric quantity raises TypeError.
\<close>

lemma assess_risk_numbers:
  "num_of p = Some x \<Longrightarrow> num_of q = Some y \<Longrightarrow> assess_risk p q = Inr (spec_risk_level p q)"
  by (auto simp: assess_risk_def spec_risk_level_def py_lt_def py_gt_def number_below_def
      number_above_def split: option.splits if_splits sum.splits)


text \<open>
  On the non-failure path a valid request whose pnl_value and quantity are numbers and
  whose trade_id is hashable does get its 200.
\<close>

lemma assess_trade_risk_returns:
  assumes "json r = JObj data" and "truthy (dict_get data ''trade_id'')"
    and "num_of (dict_get data ''pnl_value'') = Some p"
    and "num_of (dict_get data ''quantity'') = Some q"
    and "key_of (dict_get data ''trade_id'') = Inr k" and "\<not> fail_draw e < 0.03"
  shows "outcome (assess_trade_risk e r risks) =
           Inr \<lparr>body = JObj [(''trade_id'', dict_get data ''trade_id''),
                             (''risk_level'',
                              JStr (spec_risk_level (dict_get data ''pnl_value'') (dict_get data ''quantity'')))],
                status = 200\<rparr>"
proof -
  from assms(2) have "data \<noteq> []" by (auto simp: dict_get_def)
  moreover from assms(3,4) have "dict_get data ''pnl_value'' \<noteq> JNull" "dict_get data ''quantity'' \<noteq> JNull"
    by auto
  moreover note assess_risk_numbers [OF assms(3,4)]
  ultimately show ?thesis using assms
    by (simp add: assess_trade_risk_def Let_def reply_def)
qed

lemma risk_high_run:
  "assess_trade_risk env_ok (risk_request (JStr ''T1'') (JInt (- 50)) (JInt 60)) Map.empty =
     reply [KStr ''T1'' \<mapsto> JObj [(''risk_level'', JStr ''HIGH''), (''pnl_value'', JInt (- 50)),
                                 (''quantity'', JInt 60)]]
       []
       [(INFO, ''Received risk assessment request'', ''generated-trace''),
        (INFO, ''Risk assessed successfully'', ''generated-trace'')]
       (JObj [(''trade_id'', JStr ''T1''), (''risk_level'', JStr ''HIGH'')]) 200"
  by (simp add: assess_trade_risk_def Let_def env_ok_def risk_request_def trace_of_def dict_get_def
      assess_risk_def py_lt_def py_gt_def)



lemma store_assess_trade_risk:
  "store (assess_trade_risk e r risks) = risks \<or>
   (\<exists>k lvl p q. assess_risk p q = Inr lvl \<and>
      store (assess_trade_risk e r risks) =
        risks(k \<mapsto> JObj [(''risk_level'', JStr lvl), (''pnl_value'', p), (''quantity'', q)]))"
  by (auto simp: assess_trade_risk_def Let_def reply_def raise_def
      split: if_splits jvalue.splits sum.splits)

lemma store_get_risk: "store (get_risk e r tid risks) = risks"
  by (simp add: get_risk_def Let_def reply_def split: option.splits)

lemma risk_consistent_record:
  "assess_risk p q = Inr lvl \<Longrightarrow>
   risk_consistent (JObj [(''risk_level'', JStr lvl), (''pnl_value'', p), (''quantity'', q)])"
  by (simp add: risk_consistent_def dict_get_def)

lemma risk_step_consistent:
  assumes "\<And>k v. risks k = Some v \<Longrightarrow> risk_consistent v"
    and "risk_step risks x k = Some v"
  shows "risk_consistent v"
proof (cases x)
  case (POST e r)
  from store_assess_trade_risk [of e r risks] show ?thesis
  proof
    assume "store (assess_trade_risk e r risks) = risks"
    with POST assms show ?thesis by simp
  next
    assume "\<exists>k lvl p q. assess_risk p q = Inr lvl \<and>
      store (assess_trade_risk e r risks) =
        risks(k \<mapsto> JObj [(''risk_level'', JStr lvl), (''pnl_value'', p), (''quantity'', q)])"
    then obtain k' lvl p q where a: "assess_risk p q = Inr lvl"
      and s: "store (assess_trade_risk e r risks) =
        risks(k' \<mapsto> JObj [(''risk_level'', JStr lvl), (''pnl_value'', p), (''quantity'', q)])"
      by blast
    show ?thesis
    proof (cases "k = k'")
      case True
      with POST assms(2) s
      have "v = JObj [(''risk_level'', JStr lvl), (''pnl_value'', p), (''quantity'', q)]"
        by simp
      with a show ?thesis by (simp add: risk_consistent_record)
    next
      case False
      with POST assms(2) s have "risks k = Some v" by simp
      then show ?thesis by (rule assms(1))
    qed
  qed
next
  case (GET e r tid)
  with assms show ?thesis by (simp add: store_get_risk)
qed

lemma risk_run_consistent:
  "(\<And>k v. risks k = Some v \<Longrightarrow> risk_consistent v) \<Longrightarrow>
   foldl risk_step risks ops k = Some v \<Longrightarrow> risk_consistent v"
proof (induction ops arbitrary: risks)
  case Nil
  then show ?case by simp
next
  case (Cons x xs)
  have "\<And>k v. risk_step risks x k = Some v \<Longrightarrow> risk_consistent v"
    using Cons.prems(1) by (rule risk_step_consistent)
  with Cons.IH [of "risk_step risks x"] Cons.prems(2) show ?case by simp
qed

text \<open>
  C10. Starting from the empty risk store, after any sequence of POST /risk and
  GET /risk/{trade_id} requests every stored assessment is consistent: its risk_level is
  what \<^verbatim>\<open>assess_risk\<close> returns for the pnl_value and quantity of the same record.
\<close>

theorem risk_store_consistent:
  "\<forall>v \<in> ran (foldl risk_step Map.empty ops). risk_consistent v"
proof
  fix v assume "v \<in> ran (foldl risk_step Map.empty ops)"
  then obtain k where run: "foldl risk_step Map.empty ops k = Some v"
    by (auto simp: ran_def)
  show "risk_consistent v"
  proof (rule risk_run_consistent [OF _ run])
    fix k' v' assume "(Map.empty :: jvalue pydict) k' = Some v'"
    then show "risk_consistent v'" by simp
  qed
qed

theorem risk_store_consistent_witness:
  "JObj [(''risk_level'', JStr ''HIGH''), (''pnl_value'', JInt (- 50)), (''quantity'', JInt 60)]
     \<in> ran (foldl risk_step Map.empty
              [POST env_ok (risk_request (JStr ''T1'') (JInt (- 50)) (JInt 60)),
               GET env_ok get_request ''T1''])
   \<and> risk_consistent
       (JObj [(''risk_level'', JStr ''HIGH''), (''pnl_value'', JInt (- 50)), (''quantity'', JInt 60)])"
proof -
  have m: "JObj [(''risk_level'', JStr ''HIGH''), (''pnl_value'', JInt (- 50)), (''quantity'', JInt 60)]
     \<in> ran (foldl risk_step Map.empty
              [POST env_ok (risk_request (JStr ''T1'') (JInt (- 50)) (JInt 60)),
               GET env_ok get_request ''T1''])"
    by (simp add: risk_high_run store_get_risk reply_def)
  from risk_store_consistent [of "[POST env_ok (risk_request (JStr ''T1'') (JInt (- 50)) (JInt 60)),
               GET env_ok get_request ''T1'']"] m
  show ?thesis by blast
qed

section \<open>PnLService: the formula and the failure path\<close>



text \<open>
  On the non-failure path a valid request whose price and quantity are numbers and whose
  symbol and trade_id are hashable does get its 200.
\<close>

lemma compute_pnl_returns:
  assumes "json r = JObj data" and "truthy (dict_get data ''trade_id'')"
    and "truthy (dict_get data ''symbol'')" and "truthy (dict_get data ''price'')"
    and "truthy (dict_get data ''quantity'')"
    and "num_of (dict_get data ''price'') = Some p"
    and "num_of (dict_get data ''quantity'') = Some q"
    and "key_of (dict_get data ''symbol'') = Inr ks"
    and "key_of (dict_get data ''trade_id'') = Inr k" and "\<not> fail_draw e < 0.05"
  shows "\<exists>v. outcome (compute_pnl e r pnls) =
           Inr \<lparr>body = JObj [(''trade_id'', dict_get data ''trade_id''), (''pnl_value'', JFloat v)],
                status = 200\<rparr>"
proof -
  from assms(2) have "data \<noteq> []" by (auto simp: dict_get_def)
  with assms show ?thesis
    by (auto simp: compute_pnl_def table_get_def py_sub_def py_mul_def Let_def reply_def
        split: dkey.splits)
qed

lemma pnl_aapl_run:
  "compute_pnl env_ok (pnl_request (JStr ''T1'') (JStr ''AAPL'') (JInt 150) (JInt 10)) pnls =
     reply
       (pnls(KStr ''T1'' \<mapsto> JObj [(''pnl_value'', JFloat 100), (''symbol'', JStr ''AAPL''),
                                  (''price'', JInt 150), (''quantity'', JInt 10),
                                  (''cost'', JFloat 140)]))
       [\<lparr>url = ''http://localhost:5003/risk'',
         payload = JObj [(''trade_id'', JStr ''T1''), (''pnl_value'', JFloat 100), (''quantity'', JInt 10)],
         x_trace_id = ''generated-trace''\<rparr>]
       [(INFO, ''Received P&L computation request'', ''generated-trace''),
        (INFO, ''P&L computed successfully'', ''generated-trace''),
        (INFO, ''Risk service called successfully'', ''generated-trace'')]
       (JObj [(''trade_id'', JStr ''T1''), (''pnl_value'', JFloat 100)]) 200"
  by (simp add: compute_pnl_def Let_def env_ok_def pnl_request_def trace_of_def dict_get_def
      table_get_def base_costs_def py_sub_def py_mul_def call_downstream_def)



text \<open>
  C3. Whenever POST /pnl answers 500 (the simulated data inconsistency, taken when the
  draw is below 0.05), the P&L store is exactly what it was before the request and no
  downstream call is made, although price and quantity were numbers and the pnl_value had
  been computed.
\<close>

theorem pnl_failure_leaves_store:
  assumes "outcome (compute_pnl e r pnls) = Inr resp" and "status resp = 500"
  shows "store (compute_pnl e r pnls) = pnls \<and> calls (compute_pnl e r pnls) = []
     \<and> body resp = JObj [(''error'', JStr ''Data inconsistency'')]
     \<and> fail_draw e < 0.05
     \<and> (\<exists>data p q. json r = JObj data \<and> num_of (dict_get data ''price'') = Some p
           \<and> num_of (dict_get data ''quantity'') = Some q)"
  using assms
  by (auto simp: compute_pnl_def Let_def reply_def raise_def py_sub_def py_mul_def
      split: if_splits jvalue.splits sum.splits option.splits)

theorem pnl_failure_leaves_store_witness:
  "outcome (compute_pnl (env_ok\<lparr>fail_draw := 0\<rparr>)
             (pnl_request (JStr ''T1'') (JStr ''AAPL'') (JInt 150) (JInt 10))
             [KStr ''T1'' \<mapsto> JObj [(''pnl_value'', JFloat 7)]]) =
     Inr \<lparr>body = JObj [(''error'', JStr ''Data inconsistency'')], status = 500\<rparr>
   \<and> store (compute_pnl (env_ok\<lparr>fail_draw := 0\<rparr>)
             (pnl_request (JStr ''T1'') (JStr ''AAPL'') (JInt 150) (JInt 10))
             [KStr ''T1'' \<mapsto> JObj [(''pnl_value'', JFloat 7)]]) =
       [KStr ''T1'' \<mapsto> JObj [(''pnl_value'', JFloat 7)]]"
proof -
  have h: "outcome (compute_pnl (env_ok\<lparr>fail_draw := 0\<rparr>)
             (pnl_request (JStr ''T1'') (JStr ''AAPL'') (JInt 150) (JInt 10))
             [KStr ''T1'' \<mapsto> JObj [(''pnl_value'', JFloat 7)]]) =
     Inr \<lparr>body = JObj [(''error'', JStr ''Data inconsistency'')], status = 500\<rparr>"
    by (simp add: compute_pnl_def Let_def env_ok_def pnl_request_def trace_of_def dict_get_def
      table_get_def base_costs_def py_sub_def py_mul_def reply_def)
  have s: "status \<lparr>body = JObj [(''error'', JStr ''Data inconsistency'')], status = 500\<rparr> = 500"
    by simp
  from pnl_failure_leaves_store [OF h s] h show ?thesis by simp
qed

section \<open>Trace propagation\<close>

lemma calls_create_trade:
  "c \<in> set (calls (create_trade e r trades)) \<Longrightarrow> x_trace_id c = trace_of e r"
  by (auto simp: create_trade_def Let_def reply_def raise_def
      split: if_splits jvalue.splits sum.splits)

lemma calls_compute_trade_price:
  "c \<in> set (calls (compute_trade_price e r)) \<Longrightarrow> x_trace_id c = trace_of e r"
  by (auto simp: compute_trade_price_def Let_def reply_def raise_def
      split: if_splits jvalue.splits sum.splits)

lemma calls_compute_pnl:
  "c \<in> set (calls (compute_pnl e r pnls)) \<Longrightarrow> x_trace_id c = trace_of e r"
  by (auto simp: compute_pnl_def Let_def reply_def raise_def
      split: if_splits jvalue.splits sum.splits)

text \<open>
  C7. Every downstream call made by POST /trades, POST /prices and POST /pnl carries as
  its X-Trace-Id header the trace id of the inbound request: the value of the inbound
  X-Trace-Id header when the caller sent one, otherwise the token generated for the
  request.
\<close>

theorem trace_id_forwarded:
  "(\<forall>c \<in> set (calls (create_trade e r trades)).
      x_trace_id c = (case trace_header r of Some t \<Rightarrow> t | None \<Rightarrow> fresh_uuid e))
   \<and> (\<forall>c \<in> set (calls (compute_trade_price e r)).
      x_trace_id c = (case trace_header r of Some t \<Rightarrow> t | None \<Rightarrow> fresh_uuid e))
   \<and> (\<forall>c \<in> set (calls (compute_pnl e r pnls)).
      x_trace_id c = (case trace_header r of Some t \<Rightarrow> t | None \<Rightarrow> fresh_uuid e))"
  using calls_create_trade [of _ e r trades] calls_compute_trade_price [of _ e r]
    calls_compute_pnl [of _ e r pnls]
  by (simp add: trace_of_def)

lemma trade_run:
  "create_trade env_ok
     ((trade_request (JStr ''T1'') (JStr ''AAPL'') (JInt 10) (JInt 150) (JStr ''buy''))
        \<lparr>trace_header := Some ''abc''\<rparr>) Map.empty =
   reply
     [KStr ''T1'' \<mapsto> \<lparr>trade_id = JStr ''T1'', symbol = JStr ''AAPL'', quantity = JInt 10,
                       price = JInt 150, trade_type = JStr ''buy'',
                       timestamp = ''2024-01-01T00:00:00''\<rparr>]
     [\<lparr>url = ''http://localhost:5001/prices'',
       payload = JObj [(''trade_id'', JStr ''T1''), (''symbol'', JStr ''AAPL''), (''quantity'', JInt 10)],
       x_trace_id = ''abc''\<rparr>]
     [(INFO, ''Received trade creation request'', ''abc''),
      (INFO, ''Trade created successfully'', ''abc''),
      (INFO, ''Pricing service called successfully'', ''abc'')]
     (JObj [(''message'', JStr ''Trade created''), (''trade_id'', JStr ''T1'')]) 201"
  by (simp add: create_trade_def Let_def env_ok_def trade_request_def trace_of_def dict_get_def
      create_trade_object_def call_downstream_def)

lemma price_run:
  "compute_trade_price env_ok (price_request (JStr ''T1'') (JStr ''XXX'') (JInt 10)) =
   reply ()
     [\<lparr>url = ''http://localhost:5002/pnl'',
       payload = JObj [(''trade_id'', JStr ''T1''), (''symbol'', JStr ''XXX''),
                       (''price'', JFloat 100), (''quantity'', JInt 10)],
       x_trace_id = ''generated-trace''\<rparr>]
     [(INFO, ''Received price computation request'', ''generated-trace''),
      (INFO, ''Price computed successfully'', ''generated-trace''),
      (INFO, ''P&L service called successfully'', ''generated-trace'')]
     (JObj [(''trade_id'', JStr ''T1''), (''computed_price'', JFloat 100)]) 200"
  by (simp add: compute_trade_price_def Let_def env_ok_def price_request_def trace_of_def
      dict_get_def compute_price_def table_get_def base_prices_def uniform_def call_downstream_def)

theorem trace_id_forwarded_witness:
  "calls (create_trade env_ok
     ((trade_request (JStr ''T1'') (JStr ''AAPL'') (JInt 10) (JInt 150) (JStr ''buy''))
        \<lparr>trace_header := Some ''abc''\<rparr>) Map.empty) =
     [\<lparr>url = ''http://localhost:5001/prices'',
       payload = JObj [(''trade_id'', JStr ''T1''), (''symbol'', JStr ''AAPL''), (''quantity'', JInt 10)],
       x_trace_id = ''abc''\<rparr>]
   \<and> map x_trace_id (calls (create_trade env_ok
     ((trade_request (JStr ''T1'') (JStr ''AAPL'') (JInt 10) (JInt 150) (JStr ''buy''))
        \<lparr>trace_header := Some ''abc''\<rparr>) Map.empty)) = [''abc'']
   \<and> map x_trace_id
         (calls (compute_trade_price env_ok (price_request (JStr ''T1'') (JStr ''XXX'') (JInt 10)))) =
       [''generated-trace'']
   \<and> map x_trace_id
         (calls (compute_pnl env_ok (pnl_request (JStr ''T1'') (JStr ''AAPL'') (JInt 150) (JInt 10))
                   Map.empty)) =
       [''generated-trace'']"
proof -
  let ?t = "(trade_request (JStr ''T1'') (JStr ''AAPL'') (JInt 10) (JInt 150) (JStr ''buy''))
        \<lparr>trace_header := Some ''abc''\<rparr>"
  let ?p = "price_request (JStr ''T1'') (JStr ''XXX'') (JInt 10)"
  let ?n = "pnl_request (JStr ''T1'') (JStr ''AAPL'') (JInt 150) (JInt 10)"
  have a: "trace_header ?t = Some ''abc''"
    by simp
  have b: "trace_header ?p = None"
    by (simp add: price_request_def)
  have c: "trace_header ?n = None"
    by (simp add: pnl_request_def)
  have f: "fresh_uuid env_ok = ''generated-trace''"
    by (simp add: env_ok_def)
  obtain c1 where c1: "calls (create_trade env_ok ?t Map.empty) = [c1]"
    and u1: "c1 = \<lparr>url = ''http://localhost:5001/prices'',
       payload = JObj [(''trade_id'', JStr ''T1''), (''symbol'', JStr ''AAPL''), (''quantity'', JInt 10)],
       x_trace_id = ''abc''\<rparr>"
    by (simp add: trade_run reply_def)
  obtain c2 where c2: "calls (compute_trade_price env_ok ?p) = [c2]"
    by (simp add: price_run reply_def)
  obtain c3 where c3: "calls (compute_pnl env_ok ?n Map.empty) = [c3]"
    by (simp add: pnl_aapl_run reply_def)
  note t = trace_id_forwarded [where e = env_ok]
  from t [where r = ?t and trades = Map.empty] c1
  have 1: "x_trace_id c1 = ''abc''"
    by (simp add: a)
  from t [where r = ?p] c2
  have 2: "x_trace_id c2 = ''generated-trace''"
    by (simp add: b f)
  from t [where r = ?n and pnls = Map.empty] c3
  have 3: "x_trace_id c3 = ''generated-trace''"
    by (simp add: c f)
  from c1 u1 c2 c3 1 2 3 show ?thesis by simp
qed

section \<open>PricingService: the price of an unknown symbol\<close>




text \<open>
  On the non-timeout path a valid request with a hashable symbol (a string, a number or
  a boolean) does get its price; a list or an object as symbol raises TypeError in the
  table lookup.
\<close>

lemma compute_trade_price_returns:
  assumes "json r = JObj data" and "truthy (dict_get data ''trade_id'')"
    and "truthy (dict_get data ''symbol'')" and "dict_get data ''quantity'' \<noteq> JNull"
    and "\<not> fail_draw e < 0.1" and "key_of (dict_get data ''symbol'') = Inr k"
  shows "\<exists>p. outcome (compute_trade_price e r) =
           Inr \<lparr>body = JObj [(''trade_id'', dict_get data ''trade_id''), (''computed_price'', JFloat p)],
                status = 200\<rparr>"
proof -
  from assms(2) have "data \<noteq> []" by (auto simp: dict_get_def)
  with assms show ?thesis
    by (auto simp: compute_trade_price_def compute_price_def table_get_def Let_def reply_def
        split: dkey.splits)
qed



section \<open>TradeService: creation, the round trip and the stored quantity\<close>

text \<open>What \<^verbatim>\<open>create_trade\<close> does with a request that passes its validation.\<close>

lemma create_trade_valid:
  assumes "json r = JObj data"
    and "truthy (dict_get data ''trade_id'')" and "truthy (dict_get data ''symbol'')"
    and "truthy (dict_get data ''quantity'')" and "truthy (dict_get data ''price'')"
    and "truthy (dict_get data ''trade_type'')"
  shows "create_trade e r trades =
     (case key_of (dict_get data ''trade_id'') of
        Inl err \<Rightarrow> raise trades [(INFO, ''Received trade creation request'', trace_of e r)] err
      | Inr k \<Rightarrow>
          reply
            (trades(k \<mapsto> \<lparr>trade_id = dict_get data ''trade_id'', symbol = dict_get data ''symbol'',
                           quantity = dict_get data ''quantity'', price = dict_get data ''price'',
                           trade_type = dict_get data ''trade_type'', timestamp = now e\<rparr>))
            [\<lparr>url = ''http://localhost:5001/prices'',
              payload = JObj [(''trade_id'', dict_get data ''trade_id''),
                              (''symbol'', dict_get data ''symbol''),
                              (''quantity'', dict_get data ''quantity'')],
              x_trace_id = trace_of e r\<rparr>]
            [(INFO, ''Received trade creation request'', trace_of e r),
             (INFO, ''Trade created successfully'', trace_of e r),
             call_downstream e ''Pricing'' ''Error calling pricing service'' (trace_of e r)]
            (JObj [(''message'', JStr ''Trade created''), (''trade_id'', dict_get data ''trade_id'')])
            201)"
proof -
  from assms(2) have "data \<noteq> []" by (auto simp: dict_get_def)
  with assms show ?thesis
    by (simp add: create_trade_def create_trade_object_def Let_def split: sum.splits)
qed

lemma store_create_trade:
  "store (create_trade e r trades) = trades \<or>
   (\<exists>k t. truthy (quantity t) \<and> store (create_trade e r trades) = trades(k \<mapsto> t))"
proof (cases "\<exists>data. json r = JObj data \<and> truthy (dict_get data ''trade_id'')
    \<and> truthy (dict_get data ''symbol'') \<and> truthy (dict_get data ''quantity'')
    \<and> truthy (dict_get data ''price'') \<and> truthy (dict_get data ''trade_type'')")
  case True
  then obtain data where v: "json r = JObj data" "truthy (dict_get data ''trade_id'')"
    "truthy (dict_get data ''symbol'')" "truthy (dict_get data ''quantity'')"
    "truthy (dict_get data ''price'')" "truthy (dict_get data ''trade_type'')"
    by blast
  note c = create_trade_valid [OF v, of e trades]
  show ?thesis
  proof (cases "key_of (dict_get data ''trade_id'')")
    case (Inl err)
    with c show ?thesis by (simp add: raise_def)
  next
    case (Inr k)
    with c have "store (create_trade e r trades) =
      trades(k \<mapsto> \<lparr>trade_id = dict_get data ''trade_id'', symbol = dict_get data ''symbol'',
                     quantity = dict_get data ''quantity'', price = dict_get data ''price'',
                     trade_type = dict_get data ''trade_type'', timestamp = now e\<rparr>)"
      by (simp add: reply_def)
    moreover have "truthy (quantity \<lparr>trade_id = dict_get data ''trade_id'', symbol = dict_get data ''symbol'',
                     quantity = dict_get data ''quantity'', price = dict_get data ''price'',
                     trade_type = dict_get data ''trade_type'', timestamp = now e\<rparr>)"
      using v(4) by simp
    ultimately show ?thesis by blast
  qed
next
  case False
  then have "store (create_trade e r trades) = trades"
    by (auto simp: create_trade_def Let_def reply_def raise_def split: jvalue.splits sum.splits)
  then show ?thesis by simp
qed

lemma store_get_trade: "store (get_trade e r tid trades) = trades"
  by (simp add: get_trade_def Let_def reply_def split: option.splits)

lemma trade_step_truthy:
  assumes "\<And>k t. trades k = Some t \<Longrightarrow> truthy (quantity t)"
    and "trade_step trades x k = Some t"
  shows "truthy (quantity t)"
proof (cases x)
  case (POST e r)
  from store_create_trade [of e r trades] show ?thesis
  proof (elim disjE exE conjE)
    assume "store (create_trade e r trades) = trades"
    with POST assms show ?thesis by simp
  next
    fix k' t'
    assume q: "truthy (quantity t')" and s: "store (create_trade e r trades) = trades(k' \<mapsto> t')"
    show ?thesis
    proof (cases "k = k'")
      case True
      with POST assms(2) s have "t = t'" by simp
      with q show ?thesis by simp
    next
      case False
      with POST assms(2) s have "trades k = Some t" by simp
      then show ?thesis by (rule assms(1))
    qed
  qed
next
  case (GET e r tid)
  with assms show ?thesis by (simp add: store_get_trade)
qed

lemma trade_run_truthy:
  "(\<And>k t. trades k = Some t \<Longrightarrow> truthy (quantity t)) \<Longrightarrow>
   foldl trade_step trades ops k = Some t \<Longrightarrow> truthy (quantity t)"
proof (induction ops arbitrary: trades)
  case Nil
  then show ?case by simp
next
  case (Cons x xs)
  have "\<And>k t. trade_step trades x k = Some t \<Longrightarrow> truthy (quantity t)"
    using Cons.prems(1) by (rule trade_step_truthy)
  with Cons.IH [of "trade_step trades x"] Cons.prems(2) show ?case by simp
qed

lemma create_trade_falsy_quantity:
  assumes "json r = JObj data" and "\<not> truthy (dict_get data ''quantity'')"
  shows "(\<exists>resp. outcome (create_trade e r trades) = Inr resp \<and> status resp = 400)
     \<and> store (create_trade e r trades) = trades \<and> calls (create_trade e r trades) = []"
  using assms by (simp add: create_trade_def Let_def reply_def)




text \<open>
  C6, as the code has it. A request to POST /trades that passes validation and whose
  trade_id is hashable (a string, a number or a boolean) is answered 201 with the
  submitted trade_id, the trade is stored under that trade_id and one call to
  PricingService is attempted, whatever the downstream call does: its outcome \<open>d\<close>
  occurs in neither the response nor the store.
\<close>

theorem create_trade_ignores_downstream:
  assumes "json r = JObj data"
    and "truthy (dict_get data ''trade_id'')" and "truthy (dict_get data ''symbol'')"
    and "truthy (dict_get data ''quantity'')" and "truthy (dict_get data ''price'')"
    and "truthy (dict_get data ''trade_type'')"
    and "key_of (dict_get data ''trade_id'') = Inr k"
  shows "outcome (create_trade (e\<lparr>downstream := d\<rparr>) r trades) =
           Inr \<lparr>body = JObj [(''message'', JStr ''Trade created''),
                             (''trade_id'', dict_get data ''trade_id'')],
                status = 201\<rparr>
     \<and> store (create_trade (e\<lparr>downstream := d\<rparr>) r trades) =
         trades(k \<mapsto> \<lparr>trade_id = dict_get data ''trade_id'', symbol = dict_get data ''symbol'',
                        quantity = dict_get data ''quantity'', price = dict_get data ''price'',
                        trade_type = dict_get data ''trade_type'', timestamp = now e\<rparr>)"
  using assms(7) create_trade_valid [OF assms(1-6), of "e\<lparr>downstream := d\<rparr>" trades]
  by (simp add: reply_def)

theorem create_trade_ignores_downstream_witness:
  "truthy (JStr ''T1'') \<and> truthy (JStr ''AAPL'') \<and> truthy (JInt 10) \<and> truthy (JFloat 150)
   \<and> truthy (JStr ''buy'') \<and> key_of (JStr ''T1'') = Inr (KStr ''T1'')
   \<and> outcome (create_trade (env_ok\<lparr>downstream := Raised\<rparr>)
        (trade_request (JStr ''T1'') (JStr ''AAPL'') (JInt 10) (JFloat 150) (JStr ''buy'')) Map.empty) =
       Inr \<lparr>body = JObj [(''message'', JStr ''Trade created''), (''trade_id'', JStr ''T1'')],
            status = 201\<rparr>
   \<and> outcome (create_trade (env_ok\<lparr>downstream := Returned 504\<rparr>)
        (trade_request (JStr ''T1'') (JStr ''AAPL'') (JInt 10) (JFloat 150) (JStr ''buy'')) Map.empty) =
       Inr \<lparr>body = JObj [(''message'', JStr ''Trade created''), (''trade_id'', JStr ''T1'')],
            status = 201\<rparr>"
proof -
  have j: "json (trade_request (JStr ''T1'') (JStr ''AAPL'') (JInt 10) (JFloat 150) (JStr ''buy'')) =
     JObj [(''trade_id'', JStr ''T1''), (''symbol'', JStr ''AAPL''), (''quantity'', JInt 10),
           (''price'', JFloat 150), (''trade_type'', JStr ''buy'')]"
    by (simp add: trade_request_def)
  from create_trade_ignores_downstream [OF j, where k = "KStr ''T1''" and e = env_ok and d = Raised
      and trades = Map.empty]
    create_trade_ignores_downstream [OF j, where k = "KStr ''T1''" and e = env_ok
      and d = "Returned 504" and trades = Map.empty]
  show ?thesis by (simp add: dict_get_def)
qed

text \<open>
  The 201 does not extend to an unhashable trade_id: a non-empty list is truthy, so the
  request passes validation, and the assignment \<^verbatim>\<open>trades[trade_id] = trade\<close> raises
  TypeError; no 201 is returned and nothing is stored.
\<close>

theorem create_trade_unhashable_counterexample:
  "truthy (JArr [JInt 1]) \<and> truthy (JStr ''AAPL'') \<and> truthy (JInt 10) \<and> truthy (JInt 150)
   \<and> truthy (JStr ''buy'')
   \<and> outcome (create_trade env_ok
        (trade_request (JArr [JInt 1]) (JStr ''AAPL'') (JInt 10) (JInt 150) (JStr ''buy'')) Map.empty) =
       Inl TypeError
   \<and> store (create_trade env_ok
        (trade_request (JArr [JInt 1]) (JStr ''AAPL'') (JInt 10) (JInt 150) (JStr ''buy'')) Map.empty) =
       Map.empty"
  by (simp add: create_trade_def Let_def env_ok_def trade_request_def
      trace_of_def dict_get_def raise_def)

text \<open>
  C9, as the code has it. The validation of POST /trades tests truthiness, not sign or
  type. Starting from the empty store, after any sequence of requests every stored Trade
  has a truthy quantity (not null, false, zero, or an empty string, list or object); a
  request whose quantity is falsy is answered 400, stores nothing and calls nothing.
\<close>

theorem stored_quantity_truthy:
  "(\<forall>t \<in> ran (foldl trade_step Map.empty ops). truthy (quantity t))
   \<and> (json r = JObj data \<and> \<not> truthy (dict_get data ''quantity'') \<longrightarrow>
        (\<exists>resp. outcome (create_trade e r trades) = Inr resp \<and> status resp = 400)
        \<and> store (create_trade e r trades) = trades \<and> calls (create_trade e r trades) = [])"
proof (rule conjI)
  show "\<forall>t \<in> ran (foldl trade_step Map.empty ops). truthy (quantity t)"
  proof
    fix t assume "t \<in> ran (foldl trade_step Map.empty ops)"
    then obtain k where run: "foldl trade_step Map.empty ops k = Some t"
      by (auto simp: ran_def)
    show "truthy (quantity t)"
    proof (rule trade_run_truthy [OF _ run])
      fix k' t' assume "(Map.empty :: trade pydict) k' = Some t'"
      then show "truthy (quantity t')" by simp
    qed
  qed
next
  show "json r = JObj data \<and> \<not> truthy (dict_get data ''quantity'') \<longrightarrow>
        (\<exists>resp. outcome (create_trade e r trades) = Inr resp \<and> status resp = 400)
        \<and> store (create_trade e r trades) = trades \<and> calls (create_trade e r trades) = []"
    using create_trade_falsy_quantity [of r data e trades] by blast
qed

theorem stored_quantity_truthy_witness:
  "\<lparr>trade_id = JStr ''T1'', symbol = JStr ''AAPL'', quantity = JInt 10, price = JInt 150,
     trade_type = JStr ''buy'', timestamp = ''2024-01-01T00:00:00''\<rparr>
     \<in> ran (foldl trade_step Map.empty
              [POST env_ok ((trade_request (JStr ''T1'') (JStr ''AAPL'') (JInt 10) (JInt 150) (JStr ''buy''))
                              \<lparr>trace_header := Some ''abc''\<rparr>),
               GET env_ok get_request ''T1''])
   \<and> truthy (JInt 10)
   \<and> \<not> truthy (JInt 0)
   \<and> outcome (create_trade env_ok
        (trade_request (JStr ''T2'') (JStr ''AAPL'') (JInt 0) (JInt 150) (JStr ''buy'')) Map.empty) =
       Inr \<lparr>body = JObj [(''error'', JStr ''Missing required fields'')], status = 400\<rparr>
   \<and> store (create_trade env_ok
        (trade_request (JStr ''T2'') (JStr ''AAPL'') (JInt 0) (JInt 150) (JStr ''buy'')) Map.empty) =
       Map.empty"
proof -
  have m: "\<lparr>trade_id = JStr ''T1'', symbol = JStr ''AAPL'', quantity = JInt 10, price = JInt 150,
     trade_type = JStr ''buy'', timestamp = ''2024-01-01T00:00:00''\<rparr>
     \<in> ran (foldl trade_step Map.empty
              [POST env_ok ((trade_request (JStr ''T1'') (JStr ''AAPL'') (JInt 10) (JInt 150) (JStr ''buy''))
                              \<lparr>trace_header := Some ''abc''\<rparr>),
               GET env_ok get_request ''T1''])"
    by (simp add: trade_run store_get_trade reply_def)
  have j: "json (trade_request (JStr ''T2'') (JStr ''AAPL'') (JInt 0) (JInt 150) (JStr ''buy'')) =
     JObj [(''trade_id'', JStr ''T2''), (''symbol'', JStr ''AAPL''), (''quantity'', JInt 0),
           (''price'', JInt 150), (''trade_type'', JStr ''buy'')]"
    by (simp add: trade_request_def)
  have f: "\<not> truthy (dict_get [(''trade_id'', JStr ''T2''), (''symbol'', JStr ''AAPL''),
           (''quantity'', JInt 0), (''price'', JInt 150), (''trade_type'', JStr ''buy'')] ''quantity'')"
    by (simp add: dict_get_def)
  have o: "outcome (create_trade env_ok
        (trade_request (JStr ''T2'') (JStr ''AAPL'') (JInt 0) (JInt 150) (JStr ''buy'')) Map.empty) =
       Inr \<lparr>body = JObj [(''error'', JStr ''Missing required fields'')], status = 400\<rparr>"
    by (simp add: create_trade_def Let_def env_ok_def trade_request_def trace_of_def dict_get_def
        reply_def)
  from stored_quantity_truthy [where e = env_ok and trades = Map.empty
      and r = "trade_request (JStr ''T2'') (JStr ''AAPL'') (JInt 0) (JInt 150) (JStr ''buy'')"
      and data = "[(''trade_id'', JStr ''T2''), (''symbol'', JStr ''AAPL''),
           (''quantity'', JInt 0), (''price'', JInt 150), (''trade_type'', JStr ''buy'')]"
      and ops = "[POST env_ok ((trade_request (JStr ''T1'') (JStr ''AAPL'') (JInt 10) (JInt 150) (JStr ''buy''))
                              \<lparr>trace_header := Some ''abc''\<rparr>),
               GET env_ok get_request ''T1'']"] m j f o
  show ?thesis by auto
qed

text \<open>
  A stored quantity need not be a number above zero: a negative quantity and a quantity
  that is not a number are truthy, so the request is answered 201 and the trade is stored
  with that quantity.
\<close>

theorem stored_quantity_counterexample:
  "outcome (create_trade env_ok
      (trade_request (JStr ''T1'') (JStr ''AAPL'') (JInt (- 5)) (JInt 150) (JStr ''buy'')) Map.empty) =
     Inr \<lparr>body = JObj [(''message'', JStr ''Trade created''), (''trade_id'', JStr ''T1'')], status = 201\<rparr>
   \<and> map_option quantity
       (store (create_trade env_ok
          (trade_request (JStr ''T1'') (JStr ''AAPL'') (JInt (- 5)) (JInt 150) (JStr ''buy'')) Map.empty)
        (KStr ''T1'')) = Some (JInt (- 5))
   \<and> \<not> (0 :: int) < - 5
   \<and> outcome (create_trade env_ok
      (trade_request (JStr ''T2'') (JStr ''AAPL'') (JStr ''many'') (JInt 150) (JStr ''buy'')) Map.empty) =
     Inr \<lparr>body = JObj [(''message'', JStr ''Trade created''), (''trade_id'', JStr ''T2'')], status = 201\<rparr>
   \<and> map_option quantity
       (store (create_trade env_ok
          (trade_request (JStr ''T2'') (JStr ''AAPL'') (JStr ''many'') (JInt 150) (JStr ''buy'')) Map.empty)
        (KStr ''T2'')) = Some (JStr ''many'')
   \<and> num_of (JStr ''many'') = None"
  by (simp add: create_trade_def Let_def env_ok_def trade_request_def
      trace_of_def dict_get_def create_trade_object_def call_downstream_def reply_def)


section \<open>Last write wins in the P&L and risk stores\<close>










end
